theory Spec2Isabelle
  imports Complex_Main "HOL-Library.Word"
begin

section \<open>Go values shared by the two source files\<close>

text \<open>
  A non-nil Go \<open>error\<close> is a value of \<open>go_error\<close>; the nil error is \<open>None\<close> of
  \<open>go_error option\<close>. \<open>NewError m\<close> is \<open>errors.New(m)\<close> and also \<open>fmt.Errorf\<close> without
  \<open>%w\<close>; \<open>WrapError m e\<close> is \<open>fmt.Errorf\<close> with \<open>%w\<close> applied to \<open>e\<close>, \<open>m\<close> being the
  whole formatted message.
\<close>

datatype go_error = NewError string | WrapError string go_error

fun Error :: "go_error \<Rightarrow> string" where
  "Error (NewError m) = m"
| "Error (WrapError m e) = m"

text \<open>The verb \<open>%v\<close> of package fmt applied to an error operand: a nil operand prints \<open><nil>\<close>.\<close>

definition fmt_v :: "go_error option \<Rightarrow> string" where
  "fmt_v err = (case err of None \<Rightarrow> ''<nil>'' | Some e \<Rightarrow> Error e)"

text \<open>The verb \<open>%d\<close>: decimal digits, with a leading minus sign for a negative operand.\<close>

fun decimal :: "nat \<Rightarrow> string" where
  "decimal n = (if n < 10 then [''0123456789'' ! n]
                else decimal (n div 10) @ [''0123456789'' ! (n mod 10)])"

declare decimal.simps [simp del]

definition fmt_d :: "int \<Rightarrow> string" where
  "fmt_d i = (if i < 0 then CHR ''-'' # decimal (nat (- i)) else decimal (nat i))"

text \<open>\<open>strings.Split(s, " ")\<close>: the fields of \<open>s\<close> between single separator characters.\<close>

fun Split :: "string \<Rightarrow> char \<Rightarrow> string list" where
  "Split [] sep = [[]]"
| "Split (x # xs) sep =
     (if x = sep then [] # Split xs sep
      else (case Split xs sep of [] \<Rightarrow> [[x]] | w # ws \<Rightarrow> (x # w) # ws))"

type_synonym int32 = "32 word"
type_synonym uint32 = "32 word"
type_synonym int64 = "64 word"

section \<open>The namespace-exec bridge (crio-linux.go)\<close>

text \<open>
  \<open>exec.Command(name, args...)\<close> with the standard input that the caller wires to it. The
  output and error streams are always captured into fresh buffers, which \<open>run_result\<close> holds
  after \<open>cmd.Run()\<close> together with the error that \<open>Run\<close> returned.
\<close>

record Cmd =
  Cmd_Name :: string
  Cmd_Args :: "string list"
  Cmd_Stdin :: "string option"

record run_result =
  run_err :: "go_error option"
  outMsg :: string
  errMsg :: string

text \<open>
  What the two functions take from outside this repository: the install root
  (\<open>util.GetProgramPath()\<close>), the helper's file name (\<open>spec.NSExecBin\<close>), \<open>path.Join\<close> and
  \<open>path.Base\<close> of the standard library, \<open>os.Open\<close> (the file's bytes, or the error), and the
  operating system running a command. The latter answers from the commands run before, so
  that the second stage of a copy may depend on the first.
\<close>

record host =
  GetProgramPath :: string
  NSExecBin :: string
  path_Join :: "string list \<Rightarrow> string"
  path_Base :: "string \<Rightarrow> string"
  os_Open :: "string \<Rightarrow> go_error + string"
  cmd_Run :: "Cmd list \<Rightarrow> Cmd \<Rightarrow> run_result"

definition exec_Command :: "string \<Rightarrow> string list \<Rightarrow> Cmd" where
  "exec_Command name args = \<lparr>Cmd_Name = name, Cmd_Args = args, Cmd_Stdin = None\<rparr>"

text \<open>
  \<open>crioCopyToContainer\<close>. The context argument only reaches the logger and is left out, as are
  the log calls. The result is the returned error and the commands run so far.
\<close>

definition crioCopyToContainer ::
  "host \<Rightarrow> uint32 \<Rightarrow> string \<Rightarrow> string \<Rightarrow> string \<Rightarrow> bool \<Rightarrow> Cmd list
     \<Rightarrow> go_error option \<times> Cmd list" where
  "crioCopyToContainer h pid srcFile dstPath extractDirName override procs =
     (let args = ''-t '' @ fmt_d (uint pid) @ '' -p -m -- /bin/sh -c'';
          argsArray = Split args CHR '' '';
          nsbin = path_Join h [GetProgramPath h, ''bin'', NSExecBin h];
          command = ''cat > '' @ path_Join h [dstPath, path_Base h srcFile];
          cmd = exec_Command nsbin (argsArray @ [command])
      in case os_Open h srcFile of
           Inl err \<Rightarrow> (Some err, procs)
         | Inr opened \<Rightarrow>
             (let cmd = cmd\<lparr>Cmd_Stdin := Some opened\<rparr>;
                  r = cmd_Run h procs cmd;
                  procs1 = procs @ [cmd]
              in if run_err r \<noteq> None then (run_err r, procs1)
                 else if length (errMsg r) \<noteq> 0 then (Some (NewError (errMsg r)), procs1)
                 else
                   (let command = ''-t '' @ fmt_d (uint pid) @ '' -p -m -- tar -zxf ''
                          @ path_Join h [dstPath, path_Base h srcFile] @ '' -C '' @ dstPath;
                        cmd2 = exec_Command nsbin (Split command CHR '' '');
                        r2 = cmd_Run h procs1 cmd2;
                        procs2 = procs1 @ [cmd2]
                    in if run_err r2 \<noteq> None then (run_err r2, procs2)
                       else if length (errMsg r2) \<noteq> 0 then (Some (NewError (errMsg r)), procs2)
                       else (None, procs2))))"

text \<open>\<open>crioExecContainer\<close>: the pair \<open>(output, err)\<close> and the commands run so far.\<close>

definition crioExecContainer ::
  "host \<Rightarrow> int32 \<Rightarrow> string \<Rightarrow> Cmd list \<Rightarrow> (string \<times> go_error option) \<times> Cmd list" where
  "crioExecContainer h pid command procs =
     (let args = ''-t '' @ fmt_d (sint pid) @ '' -p -m -n -- /bin/sh -c'';
          argsArray = Split args CHR '' '';
          nsbin = path_Join h [GetProgramPath h, ''bin'', NSExecBin h];
          cmd = exec_Command nsbin (argsArray @ [command]);
          r = cmd_Run h procs cmd;
          procs1 = procs @ [cmd]
      in if run_err r \<noteq> None then (('''', run_err r), procs1)
         else if length (errMsg r) > 0 then ((errMsg r, None), procs1)
         else ((outMsg r, None), procs1))"

section \<open>The runtime client (crio.go)\<close>

subsection \<open>Data of the container-runtime interface\<close>

text \<open>
  The result codes are the \<open>Code\<close> fields of three named constants of package spec
  (chaosblade-spec-go); the model returns the constant's name.
\<close>

datatype CodeType = OK | ContainerExecFailed | CreateContainerFailed

text \<open>
  A Go \<open>map[string]string\<close>: \<open>None\<close> is the nil map, \<open>Some kvs\<close> a map with the entries \<open>kvs\<close>,
  listed in the order a \<open>range\<close> loop visits them. Reading a nil map finds no key.
\<close>

type_synonym go_map = "(string \<times> string) list option"

definition map_get :: "go_map \<Rightarrow> string \<Rightarrow> string option" where
  "map_get m k = (case m of None \<Rightarrow> None | Some kvs \<Rightarrow> map_of kvs k)"

definition map_entries :: "go_map \<Rightarrow> (string \<times> string) list" where
  "map_entries m = (case m of None \<Rightarrow> [] | Some kvs \<Rightarrow> kvs)"

text \<open>
  A function that can panic returns an \<open>outcome\<close>: its results, or the run-time panic. The
  two panics of this file are the nil-pointer dereference and the failed type assertion.
\<close>

datatype panic = NilPointerDereference | InterfaceConversion

datatype 'a outcome = Return 'a | Panic panic

text \<open>
  The messages of the CRI API (k8s.io/cri-api, runtime/v1) with the fields the client reads or
  writes. A pointer field is an \<open>option\<close>, \<open>None\<close> being nil; a slice is a list \<open>option\<close>
  where the code tests it against nil. The elements of a repeated message field are present:
  decoding a response never yields a nil element.
\<close>

record ContainerMetadata =
  Name :: string

record ContainerStatus =
  Status_Id :: string
  Status_Metadata :: "ContainerMetadata option"
  Status_Labels :: go_map

record ContainerStatusResponse =
  Status :: "ContainerStatus option"
  Info :: go_map

record Container =
  Container_Id :: string
  Container_Metadata :: "ContainerMetadata option"
  Container_Labels :: go_map

record ListContainersResponse =
  Containers :: "Container list"

record ExecSyncResponse =
  Stdout :: string
  Stderr :: string
  ExitCode :: int32

record CreateContainerResponse =
  Response_ContainerId :: string

record ImageSpec =
  ImageSpec_Image :: string

record LinuxContainerResources =
  MemoryLimitInBytes :: int64

record LinuxContainerConfig =
  Resources :: "LinuxContainerResources option"

record ContainerConfig =
  Metadata :: "ContainerMetadata option"
  Image :: "ImageSpec option"
  Command :: "string list option"
  Args :: "string list option"
  ContainerConfig_Labels :: go_map
  WorkingDir :: string
  Linux :: "LinuxContainerConfig option"

type_synonym PodSandboxConfig = unit

text \<open>
  The requests the client sends. \<open>ContainerStatusRequest id verbose\<close>,
  \<open>StopContainerRequest id timeout\<close>, \<open>ExecSyncRequest id cmd timeout\<close>,
  \<open>CreateContainerRequest config sandboxConfig\<close>; \<open>ListContainersRequest\<close> is the request
  with no filter.
\<close>

datatype rpc_request =
    ContainerStatusRequest string bool
  | ListContainersRequest
  | StopContainerRequest string int64
  | RemoveContainerRequest string
  | StartContainerRequest string
  | ExecSyncRequest string "string list option" int64
  | CreateContainerRequest "ContainerConfig option" "PodSandboxConfig option"
  | ImageStatusRequest "ImageSpec option"
  | PullImageRequest "ImageSpec option"

text \<open>
  The remote services. Each method answers a request after the requests sent before it on
  this client (the first argument), so the server may keep any state. A method whose response
  the client reads returns the error or the response pointer; the others return the error
  only, the client discarding their response.
\<close>

record RuntimeServiceClient =
  rt_ContainerStatus :: "rpc_request list \<Rightarrow> rpc_request \<Rightarrow> go_error + ContainerStatusResponse option"
  rt_ListContainers :: "rpc_request list \<Rightarrow> rpc_request \<Rightarrow> go_error + ListContainersResponse option"
  rt_StopContainer :: "rpc_request list \<Rightarrow> rpc_request \<Rightarrow> go_error option"
  rt_RemoveContainer :: "rpc_request list \<Rightarrow> rpc_request \<Rightarrow> go_error option"
  rt_StartContainer :: "rpc_request list \<Rightarrow> rpc_request \<Rightarrow> go_error option"
  rt_ExecSync :: "rpc_request list \<Rightarrow> rpc_request \<Rightarrow> go_error + ExecSyncResponse option"
  rt_CreateContainer :: "rpc_request list \<Rightarrow> rpc_request \<Rightarrow> go_error + CreateContainerResponse option"

record ImageServiceClient =
  img_ImageStatus :: "rpc_request list \<Rightarrow> rpc_request \<Rightarrow> go_error option"
  img_PullImage :: "rpc_request list \<Rightarrow> rpc_request \<Rightarrow> go_error option"

text \<open>
  Package context: the contexts the source builds, and the one with a deadline (in time
  units), which it never builds.
\<close>

datatype Context = Background | WithNamespace Context string | WithCancel Context
  | WithDeadline Context nat

fun has_deadline :: "Context \<Rightarrow> bool" where
  "has_deadline Background = False"
| "has_deadline (WithNamespace parent ns) = has_deadline parent"
| "has_deadline (WithCancel parent) = has_deadline parent"
| "has_deadline (WithDeadline parent d) = True"

definition DeadlineExceeded :: go_error where
  "DeadlineExceeded = NewError ''context deadline exceeded''"

definition Canceled :: go_error where
  "Canceled = NewError ''context canceled''"

datatype DialOption = WithInsecure | WithBlock

record ClientConn =
  NewRuntimeServiceClient :: RuntimeServiceClient
  NewImageServiceClient :: ImageServiceClient

text \<open>
  Package grpc as \<open>NewClient\<close> uses it: \<open>DialContext\<close> returns the error or the connection,
  or never returns (\<open>None\<close>); \<open>ctx_Err\<close> is what \<open>ctx.Err()\<close> yields once the dial has
  returned an error.
\<close>

record grpc =
  DialContext :: "Context \<Rightarrow> string \<Rightarrow> DialOption list \<Rightarrow> (go_error + ClientConn) option"
  ctx_Err :: "Context \<Rightarrow> go_error option"

text \<open>The client. Its cancel function is not modelled: no method of the client calls it.\<close>

record CRIClient =
  runtimeService :: RuntimeServiceClient
  conn :: ClientConn
  imageService :: ImageServiceClient
  Ctx :: Context

text \<open>
  \<open>container.ContainerInfo\<close> with the fields the client sets; \<open>Spec\<close> is always nil. The zero
  value is what \<open>var containerInfo container.ContainerInfo\<close> declares.
\<close>

record ContainerInfo =
  ContainerId :: string
  ContainerName :: string
  Labels :: go_map
  Spec :: "unit option"

definition zero_ContainerInfo :: ContainerInfo where
  "zero_ContainerInfo = \<lparr>ContainerId = [], ContainerName = [], Labels = None, Spec = None\<rparr>"

text \<open>
  A value held in an \<open>interface{}\<close> after \<open>json.Unmarshal\<close>: nil, a bool, a float64 (every
  JSON number; a finite float64 is a rational), a string, a slice or a map.
\<close>

datatype json_value = JNil | JBool bool | JFloat64 rat | JString string
  | JSlice "json_value list" | JMap "(string \<times> json_value) list"

text \<open>
  What the client takes from the standard library and from generated code:
  \<open>json.Unmarshal\<close> into a \<open>map[string]interface{}\<close> (the error, or the map, nil for the
  JSON text \<open>null\<close>); the results of converting a float64 outside the target type's range to
  an integer, which Go leaves to the implementation; \<open>time.Duration.Seconds\<close> (a float64) of a
  duration in nanoseconds; and the \<open>String\<close> method of the exec-sync response.
\<close>

record golib =
  json_Unmarshal :: "string \<Rightarrow> go_error + (string \<times> json_value) list option"
  int32_out_of_range :: "rat \<Rightarrow> int32"
  int64_out_of_range :: "rat \<Rightarrow> int64"
  Duration_Seconds :: "int64 \<Rightarrow> rat"
  ExecSyncResponse_String :: "ExecSyncResponse \<Rightarrow> string"

text \<open>A float64 to integer conversion discards the fraction (truncation towards zero).\<close>

definition truncate_float64 :: "rat \<Rightarrow> int" where
  "truncate_float64 f = (if 0 \<le> f then \<lfloor>f\<rfloor> else \<lceil>f\<rceil>)"

definition int32_of_float64 :: "golib \<Rightarrow> rat \<Rightarrow> int32" where
  "int32_of_float64 lib f =
     (let t = truncate_float64 f
      in if - (2 ^ 31) \<le> t \<and> t < 2 ^ 31 then word_of_int t else int32_out_of_range lib f)"

definition int64_of_float64 :: "golib \<Rightarrow> rat \<Rightarrow> int64" where
  "int64_of_float64 lib f =
     (let t = truncate_float64 f
      in if - (2 ^ 63) \<le> t \<and> t < 2 ^ 63 then word_of_int t else int64_out_of_range lib f)"

text \<open>Indexing a \<open>map[string]interface{}\<close>: the zero value nil for a nil map or a missing key.\<close>

definition iface_get :: "(string \<times> json_value) list option \<Rightarrow> string \<Rightarrow> json_value" where
  "iface_get m k =
     (case m of None \<Rightarrow> JNil
      | Some kvs \<Rightarrow> (case map_of kvs k of None \<Rightarrow> JNil | Some v \<Rightarrow> v))"

definition DefaultStateUinxAddress :: string where
  "DefaultStateUinxAddress = ''unix:///var/run/crio/crio.sock''"

definition DefaultContainerdNameSpace :: string where
  "DefaultContainerdNameSpace = ''k8s.io''"

subsection \<open>Connecting\<close>

text \<open>
  \<open>NewClient\<close>: \<open>None\<close> when the dial never returns, otherwise the error or the client.
\<close>

definition NewClient :: "grpc \<Rightarrow> string \<Rightarrow> string \<Rightarrow> (go_error + CRIClient) option" where
  "NewClient g endpoint namespace =
     (let dialOptions = [WithInsecure, WithBlock];
          endpoint = (if endpoint = [] then DefaultStateUinxAddress else endpoint);
          namespace = (if namespace = [] then DefaultContainerdNameSpace else namespace);
          ctx = Background;
          ctx = WithNamespace ctx namespace;
          ctx = WithCancel ctx
      in case DialContext g ctx endpoint dialOptions of
           None \<Rightarrow> None
         | Some (Inl err) \<Rightarrow>
             (if ctx_Err g ctx = Some DeadlineExceeded
              then Some (Inl (WrapError (''failed to connect to crio endpoint '' @ endpoint @ '': ''
                                @ fmt_v (ctx_Err g ctx)) DeadlineExceeded))
              else Some (Inl (NewError (''failed to connect to crio endpoint '' @ endpoint @ '': ''
                                @ Error err))))
         | Some (Inr clientConn) \<Rightarrow>
             Some (Inr \<lparr>runtimeService = NewRuntimeServiceClient clientConn, conn = clientConn,
                        imageService = NewImageServiceClient clientConn, Ctx = ctx\<rparr>))"

subsection \<open>Looking a container up\<close>

text \<open>
  Every method below takes the requests sent so far and returns them extended by its own.
  The context argument is only handed on to the RPC and is left out.
\<close>

definition convertContainerInfo :: "ContainerStatus \<Rightarrow> ContainerInfo outcome" where
  "convertContainerInfo containerDetail =
     (case Status_Metadata containerDetail of
        None \<Rightarrow> Panic NilPointerDereference
      | Some metadata \<Rightarrow>
          Return \<lparr>ContainerId = Status_Id containerDetail, ContainerName = Name metadata,
                  Labels = Status_Labels containerDetail, Spec = None\<rparr>)"

definition GetContainerById ::
  "CRIClient \<Rightarrow> string \<Rightarrow> rpc_request list
     \<Rightarrow> (ContainerInfo \<times> go_error option \<times> CodeType) outcome \<times> rpc_request list" where
  "GetContainerById c containerId sent =
     (let containerInfo = zero_ContainerInfo;
          request = ContainerStatusRequest containerId True;
          r = rt_ContainerStatus (runtimeService c) sent request;
          sent1 = sent @ [request];
          noStatus = (Return (containerInfo,
                        Some (NewError (''no response status found for container '' @ containerId)),
                        ContainerExecFailed), sent1)
      in case r of
           Inl err \<Rightarrow>
             (Return (containerInfo,
                Some (NewError (''failed to get container status for container '' @ containerId
                        @ '': '' @ fmt_v (Some err))),
                ContainerExecFailed), sent1)
         | Inr None \<Rightarrow> noStatus
         | Inr (Some response) \<Rightarrow>
             (case Status response of
                None \<Rightarrow> noStatus
              | Some status \<Rightarrow>
                  (case convertContainerInfo status of
                     Panic p \<Rightarrow> (Panic p, sent1)
                   | Return info \<Rightarrow> (Return (info, None, OK), sent1))))"

definition GetPidById ::
  "golib \<Rightarrow> CRIClient \<Rightarrow> string \<Rightarrow> rpc_request list
     \<Rightarrow> (int32 \<times> go_error option \<times> CodeType) outcome \<times> rpc_request list" where
  "GetPidById lib c containerId sent =
     (let request = ContainerStatusRequest containerId True;
          r = rt_ContainerStatus (runtimeService c) sent request;
          sent1 = sent @ [request];
          nilInfo = (Return (- 1,
                       Some (NewError (''container info is nil for container '' @ containerId)),
                       ContainerExecFailed), sent1)
      in case r of
           Inl err \<Rightarrow>
             (Return (- 1,
                Some (NewError (''failed to get container status and info for container ''
                        @ containerId @ '': '' @ fmt_v (Some err))),
                ContainerExecFailed), sent1)
         | Inr None \<Rightarrow> nilInfo
         | Inr (Some response) \<Rightarrow>
             (case Info response of
                None \<Rightarrow> nilInfo
              | Some info \<Rightarrow>
                  (case json_Unmarshal lib (case map_of info ''info'' of None \<Rightarrow> [] | Some s \<Rightarrow> s) of
                     Inl err \<Rightarrow>
                       (Return (- 1,
                          Some (NewError (''json.Unmarshal container info error for container ''
                                  @ containerId @ '','' @ fmt_v (Some err))),
                          ContainerExecFailed), sent1)
                   | Inr dataMap \<Rightarrow>
                       (case iface_get dataMap ''pid'' of
                          JFloat64 f \<Rightarrow> (Return (int32_of_float64 lib f, None, OK), sent1)
                        | _ \<Rightarrow> (Panic InterfaceConversion, sent1)))))"

definition convertContainerInfo2 :: "Container \<Rightarrow> ContainerInfo outcome" where
  "convertContainerInfo2 containerDetail =
     (case Container_Metadata containerDetail of
        None \<Rightarrow> Panic NilPointerDereference
      | Some metadata \<Rightarrow>
          Return \<lparr>ContainerId = Container_Id containerDetail, ContainerName = Name metadata,
                  Labels = Container_Labels containerDetail, Spec = None\<rparr>)"

text \<open>The \<open>range\<close> loop of \<open>matchLabels\<close> over the selector's entries.\<close>

fun matchLabels_loop :: "(string \<times> string) list \<Rightarrow> (string \<times> string) list \<Rightarrow> bool" where
  "matchLabels_loop labels [] = True"
| "matchLabels_loop labels ((key, value) # rest) =
     (case map_of labels key of
        None \<Rightarrow> False
      | Some containerValue \<Rightarrow>
          (if containerValue \<noteq> value then False else matchLabels_loop labels rest))"

definition matchLabels :: "Container \<Rightarrow> go_map \<Rightarrow> bool" where
  "matchLabels container labelSelector =
     (case Container_Labels container of
        None \<Rightarrow> False
      | Some labels \<Rightarrow> matchLabels_loop labels (map_entries labelSelector))"

definition GetContainerByLabelSelector ::
  "CRIClient \<Rightarrow> go_map \<Rightarrow> rpc_request list
     \<Rightarrow> (ContainerInfo \<times> go_error option \<times> CodeType) outcome \<times> rpc_request list" where
  "GetContainerByLabelSelector c labels sent =
     (let containerInfo = zero_ContainerInfo;
          listRequest = ListContainersRequest;
          r = rt_ListContainers (runtimeService c) sent listRequest;
          sent1 = sent @ [listRequest]
      in case r of
           Inl err \<Rightarrow>
             (Return (containerInfo,
                Some (NewError (''failed to list containers: '' @ fmt_v (Some err))),
                ContainerExecFailed), sent1)
         | Inr None \<Rightarrow> (Panic NilPointerDereference, sent1)
         | Inr (Some listResponse) \<Rightarrow>
             (let filteredContainers =
                    filter (\<lambda>container. matchLabels container labels) (Containers listResponse)
              in case filteredContainers of
                   [] \<Rightarrow>
                     (Return (containerInfo,
                        Some (NewError (''no containers found: '' @ fmt_v None)),
                        ContainerExecFailed), sent1)
                 | first # others \<Rightarrow>
                     (case convertContainerInfo2 first of
                        Panic p \<Rightarrow> (Panic p, sent1)
                      | Return info \<Rightarrow> (Return (info, None, OK), sent1))))"

subsection \<open>Removing a container\<close>

definition RemoveContainer ::
  "CRIClient \<Rightarrow> string \<Rightarrow> bool \<Rightarrow> rpc_request list \<Rightarrow> go_error option \<times> rpc_request list" where
  "RemoveContainer c containerId force sent =
     (let stopRequest = StopContainerRequest containerId 15;
          err = rt_StopContainer (runtimeService c) sent stopRequest;
          sent1 = sent @ [stopRequest]
      in case err of
           Some e \<Rightarrow>
             (Some (NewError (''failed to stop container '' @ containerId @ '': ''
                      @ fmt_v (Some e))), sent1)
         | None \<Rightarrow>
             (let removeRequest = RemoveContainerRequest containerId;
                  err = rt_RemoveContainer (runtimeService c) sent1 removeRequest;
                  sent2 = sent1 @ [removeRequest]
              in case err of
                   Some e \<Rightarrow>
                     (Some (NewError (''failed to remove container '' @ containerId @ '': ''
                              @ fmt_v (Some e))), sent2)
                 | None \<Rightarrow> (None, sent2)))"

subsection \<open>The ephemeral container\<close>

text \<open>
  The configuration types of the docker API with the fields \<open>CreateContainer\<close> reads. The
  networking configuration is never read, so its type is left open.
\<close>

record Config =
  Config_Image :: string
  Config_Cmd :: "string list option"
  Config_Entrypoint :: "string list option"
  Config_Labels :: go_map
  Config_WorkingDir :: string

record HostConfig =
  HostConfig_Memory :: int64

definition CreateContainer ::
  "CRIClient \<Rightarrow> string \<Rightarrow> Config option \<Rightarrow> HostConfig option \<Rightarrow> 'n \<Rightarrow> rpc_request list
     \<Rightarrow> (string \<times> go_error option) outcome \<times> rpc_request list" where
  "CreateContainer c containerName config hostConfig networkConfig sent =
     (case config of
        None \<Rightarrow> (Panic NilPointerDereference, sent)
      | Some cfg \<Rightarrow>
          (let imageSpec = \<lparr>ImageSpec_Image = Config_Image cfg\<rparr>;
               pullRequest = PullImageRequest (Some imageSpec);
               statusRequest = ImageStatusRequest (Some imageSpec);
               err = img_ImageStatus (imageService c) sent statusRequest;
               sent1 = sent @ [statusRequest];
               err = img_PullImage (imageService c) sent1 pullRequest;
               sent2 = sent1 @ [pullRequest]
           in case err of
                Some e \<Rightarrow>
                  (Return ([], Some (NewError (''failed to pull image '' @ Config_Image cfg @ '': ''
                                       @ fmt_v (Some e)))), sent2)
              | None \<Rightarrow>
                  (case hostConfig of
                     None \<Rightarrow> (Panic NilPointerDereference, sent2)
                   | Some hostCfg \<Rightarrow>
                       (let containerConfig =
                              \<lparr>Metadata = Some \<lparr>Name = containerName\<rparr>,
                               Image = Some imageSpec,
                               Command = Config_Cmd cfg,
                               Args = Config_Entrypoint cfg,
                               ContainerConfig_Labels = Config_Labels cfg,
                               WorkingDir = Config_WorkingDir cfg,
                               Linux = None\<rparr>;
                            linuxConfig =
                              \<lparr>Resources = Some \<lparr>MemoryLimitInBytes = HostConfig_Memory hostCfg\<rparr>\<rparr>;
                            containerConfig = containerConfig\<lparr>Linux := Some linuxConfig\<rparr>;
                            containerRequest = CreateContainerRequest (Some containerConfig) (Some ());
                            r = rt_CreateContainer (runtimeService c) sent2 containerRequest;
                            sent3 = sent2 @ [containerRequest]
                        in case r of
                             Inl e \<Rightarrow>
                               (Return ([], Some (NewError (''failed to create container: ''
                                                    @ fmt_v (Some e)))), sent3)
                           | Inr None \<Rightarrow> (Panic NilPointerDereference, sent3)
                           | Inr (Some containerResponse) \<Rightarrow>
                               (Return (Response_ContainerId containerResponse, None), sent3)))))"

text \<open>
  \<open>ExecuteAndRemove\<close>: the results \<open>(containerId, output, err, code)\<close>. The duration
  \<open>timeout\<close> is in nanoseconds. The assignment to \<open>config.Cmd\<close> is followed as far as this
  function reads it back.
\<close>

definition ExecuteAndRemove ::
  "golib \<Rightarrow> CRIClient \<Rightarrow> Config option \<Rightarrow> HostConfig option \<Rightarrow> 'n \<Rightarrow> string \<Rightarrow> bool \<Rightarrow> int64
     \<Rightarrow> string \<Rightarrow> ContainerInfo \<Rightarrow> rpc_request list
     \<Rightarrow> (string \<times> string \<times> go_error option \<times> CodeType) outcome \<times> rpc_request list" where
  "ExecuteAndRemove lib c config hostConfig networkConfig containerName removed timeout command
       containerInfo sent =
     (case CreateContainer c containerName config hostConfig networkConfig sent of
        (Panic p, sent1) \<Rightarrow> (Panic p, sent1)
      | (Return (containerId, Some e), sent1) \<Rightarrow>
          (Return ([], [], Some (NewError (''CreateContainer error:'' @ fmt_v (Some e))),
             CreateContainerFailed), sent1)
      | (Return (containerId, None), sent1) \<Rightarrow>
          (let startRequest = StartContainerRequest containerId;
               err = rt_StartContainer (runtimeService c) sent1 startRequest;
               sent2 = sent1 @ [startRequest]
           in case err of
                Some e \<Rightarrow>
                  (Return ([], [], Some (NewError (''StartContainer error:'' @ fmt_v (Some e))),
                     CreateContainerFailed), sent2)
              | None \<Rightarrow>
                  (case config of
                     None \<Rightarrow> (Panic NilPointerDereference, sent2)
                   | Some cfg \<Rightarrow>
                       (let cmdslice = [command];
                            cfg = (if Config_Cmd cfg = None
                                   then cfg\<lparr>Config_Cmd := Some cmdslice\<rparr> else cfg);
                            execRequest = ExecSyncRequest containerId (Config_Cmd cfg)
                                            (int64_of_float64 lib (Duration_Seconds lib timeout));
                            r = rt_ExecSync (runtimeService c) sent2 execRequest;
                            sent3 = sent2 @ [execRequest]
                        in case r of
                             Inl e \<Rightarrow>
                               (Return (containerId, [],
                                  Some (NewError (''failed to execute command in container ''
                                          @ Error e @ '': %!v(MISSING)'')),
                                  CreateContainerFailed), sent3)
                           | Inr None \<Rightarrow> (Panic NilPointerDereference, sent3)
                           | Inr (Some execResponse) \<Rightarrow>
                               (if ExitCode execResponse \<noteq> 0
                                then (Return (containerId, [],
                                        Some (NewError (''command in container failed : ''
                                                @ fmt_v None)),
                                        ContainerExecFailed), sent3)
                                else
                                  (let stopRequest = StopContainerRequest containerId 10;
                                       err = rt_StopContainer (runtimeService c) sent3 stopRequest;
                                       sent4 = sent3 @ [stopRequest]
                                   in case err of
                                        Some e \<Rightarrow>
                                          (Return (containerId, [],
                                             Some (NewError (''command in container failed : ''
                                                     @ fmt_v (Some e))),
                                             ContainerExecFailed), sent4)
                                      | None \<Rightarrow>
                                          (let removeRequest = RemoveContainerRequest containerId;
                                               err = rt_RemoveContainer (runtimeService c) sent4
                                                       removeRequest;
                                               sent5 = sent4 @ [removeRequest]
                                           in case err of
                                                Some e \<Rightarrow>
                                                  (Return (containerId, [],
                                                     Some (NewError (''failed to remove container : ''
                                                             @ fmt_v (Some e))),
                                                     ContainerExecFailed), sent5)
                                              | None \<Rightarrow>
                                                  (Return (containerId,
                                                     ExecSyncResponse_String lib execResponse,
                                                     None, OK), sent5))))))))"

section \<open>Predicates of the statements\<close>

text \<open>
  The subset match as the specification words it: every key of the selector exists in the
  label mapping with an equal value.
\<close>

definition selector_subset :: "go_map \<Rightarrow> go_map \<Rightarrow> bool" where
  "selector_subset S L = list_all (\<lambda>(k, v). map_get L k = Some v) (map_entries S)"

text \<open>The requests that stop or remove a container.\<close>

fun is_stop_or_remove :: "rpc_request \<Rightarrow> bool" where
  "is_stop_or_remove (StopContainerRequest containerId t) = True"
| "is_stop_or_remove (RemoveContainerRequest containerId) = True"
| "is_stop_or_remove other = False"

section \<open>Example environments\<close>

text \<open>
  Stand-ins for the world outside the client, at which the theorems below are instantiated:
  a host whose helper answers its first invocation with \<open>r1\<close> and every later one with
  \<open>r2\<close>, and a runtime every method of which fails; an example overrides the methods it
  needs.
\<close>

fun join_slash :: "string list \<Rightarrow> string" where
  "join_slash [] = []"
| "join_slash [x] = x"
| "join_slash (x # y # ys) = x @ ''/'' @ join_slash (y # ys)"

definition example_host :: "run_result \<Rightarrow> run_result \<Rightarrow> host" where
  "example_host r1 r2 =
     \<lparr>GetProgramPath = ''/opt/chaosblade'', NSExecBin = ''nsexec'',
      path_Join = join_slash,
      path_Base = (\<lambda>p. last (Split p CHR ''/'')),
      os_Open = (\<lambda>name. Inr ''archive-bytes''),
      cmd_Run = (\<lambda>procs cmd. if procs = [] then r1 else r2)\<rparr>"

definition failing_runtime :: RuntimeServiceClient where
  "failing_runtime =
     \<lparr>rt_ContainerStatus = (\<lambda>sent req. Inl (NewError ''unavailable'')),
      rt_ListContainers = (\<lambda>sent req. Inl (NewError ''unavailable'')),
      rt_StopContainer = (\<lambda>sent req. Some (NewError ''unavailable'')),
      rt_RemoveContainer = (\<lambda>sent req. Some (NewError ''unavailable'')),
      rt_StartContainer = (\<lambda>sent req. Some (NewError ''unavailable'')),
      rt_ExecSync = (\<lambda>sent req. Inl (NewError ''unavailable'')),
      rt_CreateContainer = (\<lambda>sent req. Inl (NewError ''unavailable''))\<rparr>"

definition example_images :: ImageServiceClient where
  "example_images = \<lparr>img_ImageStatus = (\<lambda>sent req. None), img_PullImage = (\<lambda>sent req. None)\<rparr>"

definition example_client :: "RuntimeServiceClient \<Rightarrow> CRIClient" where
  "example_client rt =
     \<lparr>runtimeService = rt,
      conn = \<lparr>NewRuntimeServiceClient = rt, NewImageServiceClient = example_images\<rparr>,
      imageService = example_images,
      Ctx = WithCancel (WithNamespace Background DefaultContainerdNameSpace)\<rparr>"

text \<open>
  Clients of such runtimes: one whose status RPC gives \<open>reply\<close>; one whose list RPC
  succeeds with the given containers; one whose stop and remove RPCs give \<open>stopped\<close> and
  \<open>removed\<close>; and one whose create RPC returns the identifier \<open>abc\<close> and whose start and
  exec-sync RPCs give \<open>started\<close> and \<open>execd\<close>.
\<close>

definition status_client :: "go_error + ContainerStatusResponse option \<Rightarrow> CRIClient" where
  "status_client reply =
     example_client (failing_runtime\<lparr>rt_ContainerStatus := (\<lambda>sent req. reply)\<rparr>)"

definition listing_client :: "Container list \<Rightarrow> CRIClient" where
  "listing_client containers =
     example_client (failing_runtime\<lparr>rt_ListContainers :=
       (\<lambda>sent req. Inr (Some \<lparr>Containers = containers\<rparr>))\<rparr>)"

definition removal_client :: "go_error option \<Rightarrow> go_error option \<Rightarrow> CRIClient" where
  "removal_client stopped removed =
     example_client (failing_runtime\<lparr>rt_StopContainer := (\<lambda>sent req. stopped),
                                      rt_RemoveContainer := (\<lambda>sent req. removed)\<rparr>)"

definition job_client ::
  "go_error option \<Rightarrow> go_error + ExecSyncResponse option \<Rightarrow> CRIClient" where
  "job_client started execd =
     example_client (failing_runtime\<lparr>
       rt_CreateContainer := (\<lambda>sent req. Inr (Some \<lparr>Response_ContainerId = ''abc''\<rparr>)),
       rt_StartContainer := (\<lambda>sent req. started),
       rt_ExecSync := (\<lambda>sent req. execd)\<rparr>)"

definition example_status :: "ContainerMetadata option \<Rightarrow> ContainerStatus" where
  "example_status metadata =
     \<lparr>Status_Id = ''c1'', Status_Metadata = metadata, Status_Labels = Some [(''app'', ''web'')]\<rparr>"

definition example_container :: "string \<Rightarrow> go_map \<Rightarrow> Container" where
  "example_container containerId labels =
     \<lparr>Container_Id = containerId, Container_Metadata = Some \<lparr>Name = ''web''\<rparr>,
      Container_Labels = labels\<rparr>"

definition example_config :: Config where
  "example_config =
     \<lparr>Config_Image = ''busybox'', Config_Cmd = None, Config_Entrypoint = None,
      Config_Labels = None, Config_WorkingDir = ''/''\<rparr>"

definition example_hostConfig :: HostConfig where
  "example_hostConfig = \<lparr>HostConfig_Memory = 0\<rparr>"

text \<open>
  Two JSON texts, \<open>{"pid":"4242"}\<close> and \<open>{"pid":4242}\<close>, and a decoder that knows them and
  the empty object. The other library results are fixed.
\<close>

definition json_pid_string :: string where
  "json_pid_string =
     ''{'' @ [CHR 0x22] @ ''pid'' @ [CHR 0x22] @ '':'' @ [CHR 0x22] @ ''4242'' @ [CHR 0x22] @ ''}''"

definition json_pid_number :: string where
  "json_pid_number = ''{'' @ [CHR 0x22] @ ''pid'' @ [CHR 0x22] @ '':4242}''"

definition example_lib :: golib where
  "example_lib =
     \<lparr>json_Unmarshal = (\<lambda>text.
        if text = ''{}'' then Inr (Some [])
        else if text = json_pid_string then Inr (Some [(''pid'', JString ''4242'')])
        else if text = json_pid_number then Inr (Some [(''pid'', JFloat64 4242)])
        else Inl (NewError ''unexpected end of JSON input'')),
      int32_out_of_range = (\<lambda>f. 0),
      int64_out_of_range = (\<lambda>f. 0),
      Duration_Seconds = (\<lambda>d. of_int (sint d) / 1000000000),
      ExecSyncResponse_String = (\<lambda>r. Stdout r)\<rparr>"

text \<open>
  A dial against an endpoint where nothing listens, with the blocking option: it gives up
  when the context's deadline passes, and a context without a deadline waits for ever.
\<close>

definition unreachable_grpc :: grpc where
  "unreachable_grpc =
     \<lparr>DialContext = (\<lambda>ctx endpoint dialOptions.
        if has_deadline ctx then Some (Inl DeadlineExceeded)
        else if WithBlock \<in> set dialOptions then None
        else Some (Inl (NewError ''connection refused''))),
      ctx_Err = (\<lambda>ctx. if has_deadline ctx then Some DeadlineExceeded else None)\<rparr>"

section \<open>The namespace-exec bridge: command execution\<close>

text \<open>
  The argument line of the helper is split at its spaces. The decimal form of the process id
  holds no space, so it is one argument of its own.
\<close>

lemma Split_field:
  "sep \<notin> set w \<Longrightarrow> Split (w @ sep # rest) sep = w # Split rest sep"
  by (induction w) auto

lemma decimal_no_space: "CHR '' '' \<notin> set (decimal n)"
proof (induction n rule: decimal.induct)
  case (1 n)
  have digit: "CHR '' '' \<noteq> ''0123456789'' ! k" if "k < 10" for k :: nat
  proof -
    from that have "k \<in> {0, 1, 2, 3, 4, 5, 6, 7, 8, 9}" by auto
    then show ?thesis by auto
  qed
  show ?case
  proof (cases "n < 10")
    case True
    then show ?thesis
      using digit [of n] by (subst decimal.simps) simp
  next
    case False
    then show ?thesis
      using "1.IH" digit [of "n mod 10"] by (subst decimal.simps) simp
  qed
qed

lemma fmt_d_no_space: "CHR '' '' \<notin> set (fmt_d i)"
  by (simp add: fmt_d_def decimal_no_space)

text \<open>
  Claim C3. \<open>crioExecContainer\<close> makes exactly one invocation: the helper under the
  install root's \<open>bin\<close> directory, with the arguments \<open>-t pid -p -m -n -- /bin/sh -c\<close>
  followed by the command. If that invocation fails to start or run, the error is returned
  with empty output. If it runs and its error stream is not empty, the error stream's content
  is returned as the output, with a nil error. Otherwise the standard output is returned with
  a nil error.
\<close>

theorem crioExecContainer_contract:
  "let helper = exec_Command (path_Join h [GetProgramPath h, ''bin'', NSExecBin h])
                  [''-t'', fmt_d (sint pid), ''-p'', ''-m'', ''-n'', ''--'', ''/bin/sh'', ''-c'',
                   command];
       r = cmd_Run h procs helper;
       res = crioExecContainer h pid command procs
   in snd res = procs @ [helper] \<and>
      (run_err r \<noteq> None \<longrightarrow> fst res = ([], run_err r)) \<and>
      (run_err r = None \<and> errMsg r \<noteq> [] \<longrightarrow> fst res = (errMsg r, None)) \<and>
      (run_err r = None \<and> errMsg r = [] \<longrightarrow> fst res = (outMsg r, None))"
  by (auto simp: crioExecContainer_def Let_def Split_field [OF fmt_d_no_space])

theorem crioExecContainer_contract_witness:
  "fst (crioExecContainer
          (example_host \<lparr>run_err = Some (NewError ''exit status 1''), outMsg = ''partial'',
                          errMsg = ''boom''\<rparr>
                        \<lparr>run_err = None, outMsg = [], errMsg = []\<rparr>) 7 ''ls'' [])
     = ([], Some (NewError ''exit status 1'')) \<and>
   fst (crioExecContainer
          (example_host \<lparr>run_err = None, outMsg = [], errMsg = ''err'' @ [CHR 0x0A]\<rparr>
                        \<lparr>run_err = None, outMsg = [], errMsg = []\<rparr>)
          7 ''echo err 1>&2'' [])
     = (''err'' @ [CHR 0x0A], None) \<and>
   fst (crioExecContainer
          (example_host \<lparr>run_err = None, outMsg = ''out'', errMsg = []\<rparr>
                        \<lparr>run_err = None, outMsg = [], errMsg = []\<rparr>) 7 ''ls'' [])
     = (''out'', None) \<and>
   snd (crioExecContainer
          (example_host \<lparr>run_err = None, outMsg = ''out'', errMsg = []\<rparr>
                        \<lparr>run_err = None, outMsg = [], errMsg = []\<rparr>) 7 ''ls'' [])
     = [\<lparr>Cmd_Name = ''/opt/chaosblade/bin/nsexec'',
         Cmd_Args = [''-t'', ''7'', ''-p'', ''-m'', ''-n'', ''--'', ''/bin/sh'', ''-c'', ''ls''],
         Cmd_Stdin = None\<rparr>]"
  using
    crioExecContainer_contract [of
      "example_host \<lparr>run_err = Some (NewError ''exit status 1''), outMsg = ''partial'',
                      errMsg = ''boom''\<rparr> \<lparr>run_err = None, outMsg = [], errMsg = []\<rparr>"
      7 "''ls''" "[]"]
    crioExecContainer_contract [of
      "example_host \<lparr>run_err = None, outMsg = [], errMsg = ''err'' @ [CHR 0x0A]\<rparr>
                    \<lparr>run_err = None, outMsg = [], errMsg = []\<rparr>"
      7 "''echo err 1>&2''" "[]"]
    crioExecContainer_contract [of
      "example_host \<lparr>run_err = None, outMsg = ''out'', errMsg = []\<rparr>
                    \<lparr>run_err = None, outMsg = [], errMsg = []\<rparr>" 7 "''ls''" "[]"]
  by (simp add: Let_def example_host_def exec_Command_def fmt_d_def decimal.simps)

section \<open>The namespace-exec bridge: file copy\<close>

text \<open>
  Whenever both stages of a copy have run and the extraction exits zero with text on its
  error stream, the returned error has the empty message: the message is read from the first
  stage's buffer, which is empty whenever the second stage is reached.
\<close>

lemma crioCopyToContainer_second_stage:
  assumes "crioCopyToContainer h pid srcFile dstPath extractDirName override procs
             = (err, procs @ [c1, c2])"
    and "run_err (cmd_Run h (procs @ [c1]) c2) = None"
    and "errMsg (cmd_Run h (procs @ [c1]) c2) \<noteq> []"
  shows "err = Some (NewError [])"
proof (cases "os_Open h srcFile")
  case (Inl e)
  with assms(1) show ?thesis
    by (simp add: crioCopyToContainer_def Let_def)
next
  case (Inr opened)
  show ?thesis
  proof (cases "run_err (cmd_Run h procs c1) = None \<and> errMsg (cmd_Run h procs c1) = []")
    case True
    with assms Inr show ?thesis
      by (simp add: crioCopyToContainer_def Let_def split: if_splits)
  next
    case False
    with assms(1) Inr show ?thesis
      by (simp add: crioCopyToContainer_def Let_def split: if_splits)
  qed
qed

text \<open>
  Claim C2, at a concrete copy. The upload succeeds with nothing on its error stream; the
  extraction exits zero and writes \<open>tar: short read\<close> to its error stream. The copy returns
  an error, but its message is empty and not the extraction's error stream.
\<close>

theorem crioCopyToContainer_loses_stage2_stderr:
  "fst (crioCopyToContainer
          (example_host \<lparr>run_err = None, outMsg = [], errMsg = []\<rparr>
                        \<lparr>run_err = None, outMsg = [], errMsg = ''tar: short read''\<rparr>)
          4242 ''/tmp/a.tar.gz'' ''/opt'' [] False [])
     = Some (NewError [])"
  by (simp add: crioCopyToContainer_def example_host_def Let_def)

section \<open>Connecting\<close>

text \<open>
  The context \<open>NewClient\<close> dials with has no deadline: a dial that returns only when a
  deadline passes never returns, and the branch for an exceeded deadline is never taken as
  long as a context without a deadline never reports one.
\<close>

lemma NewClient_dials_without_deadline:
  assumes "\<And>ctx ep opts. \<not> has_deadline ctx \<Longrightarrow> DialContext g ctx ep opts = None"
  shows "NewClient g endpoint namespace = None"
  using assms by (simp add: NewClient_def Let_def)

lemma NewClient_timeout_branch_dead:
  assumes "\<And>ctx. \<not> has_deadline ctx \<Longrightarrow> ctx_Err g ctx \<noteq> Some DeadlineExceeded"
    and "NewClient g endpoint namespace = Some (Inl e)"
  shows "\<exists>m. e = NewError m"
  using assms by (auto simp: NewClient_def Let_def split: option.splits sum.splits if_splits)

text \<open>
  Claim C7, at an endpoint where nothing listens. \<open>NewClient\<close> does not fail there: the
  blocking dial waits on a context without a deadline, and \<open>NewClient\<close> never returns.
\<close>

theorem NewClient_blocks_without_deadline:
  "NewClient unreachable_grpc endpoint namespace = None"
  by (simp add: NewClient_def unreachable_grpc_def Let_def)

section \<open>Status lookup by identifier\<close>

text \<open>
  Claim C8. \<open>GetContainerById\<close> sends one verbose status request. When the RPC succeeds
  with a response whose status and status metadata are present, it returns a
  \<open>ContainerInfo\<close> whose identifier is the status's id and whose name is the metadata's
  name, with no error. When the RPC fails, or the response or its status is nil, it returns
  an error with the code \<open>ContainerExecFailed\<close>.
\<close>

theorem GetContainerById_projection:
  "let request = ContainerStatusRequest containerId True;
       reply = rt_ContainerStatus (runtimeService c) sent request;
       res = GetContainerById c containerId sent
   in snd res = sent @ [request] \<and>
      (\<forall>response status metadata.
         reply = Inr (Some response) \<and> Status response = Some status \<and>
         Status_Metadata status = Some metadata \<longrightarrow>
         (\<exists>info. fst res = Return (info, None, OK) \<and> ContainerId info = Status_Id status \<and>
                 ContainerName info = Name metadata)) \<and>
      (\<forall>err. reply = Inl err \<longrightarrow>
         fst res = Return (zero_ContainerInfo,
                     Some (NewError (''failed to get container status for container ''
                             @ containerId @ '': '' @ Error err)),
                     ContainerExecFailed)) \<and>
      (reply = Inr None \<or> (\<exists>response. reply = Inr (Some response) \<and> Status response = None)
         \<longrightarrow>
         fst res = Return (zero_ContainerInfo,
                     Some (NewError (''no response status found for container '' @ containerId)),
                     ContainerExecFailed))"
  by (auto simp: GetContainerById_def convertContainerInfo_def fmt_v_def Let_def
        split: sum.splits option.splits)

theorem GetContainerById_projection_witness:
  "(\<exists>info. fst (GetContainerById
                 (status_client (Inr (Some \<lparr>Status = Some (example_status (Some \<lparr>Name = ''web''\<rparr>)),
                                            Info = None\<rparr>))) ''c1'' [])
            = Return (info, None, OK) \<and> ContainerId info = ''c1'' \<and> ContainerName info = ''web'') \<and>
   fst (GetContainerById (status_client (Inl (NewError ''unavailable''))) ''c1'' [])
     = Return (zero_ContainerInfo,
         Some (NewError ''failed to get container status for container c1: unavailable''),
         ContainerExecFailed) \<and>
   fst (GetContainerById (status_client (Inr (Some \<lparr>Status = None, Info = None\<rparr>))) ''c1'' [])
     = Return (zero_ContainerInfo, Some (NewError ''no response status found for container c1''),
         ContainerExecFailed)"
  using
    GetContainerById_projection [where containerId = "''c1''" and sent = "[]" and
      c = "status_client (Inr (Some \<lparr>Status = Some (example_status (Some \<lparr>Name = ''web''\<rparr>)),
                                      Info = None\<rparr>))"]
    GetContainerById_projection [where containerId = "''c1''" and sent = "[]" and
      c = "status_client (Inl (NewError ''unavailable''))"]
    GetContainerById_projection [where containerId = "''c1''" and sent = "[]" and
      c = "status_client (Inr (Some \<lparr>Status = None, Info = None\<rparr>))"]
  by (simp add: Let_def status_client_def example_client_def failing_runtime_def
        example_status_def)

text \<open>
  Claim C10. When the status is present and its metadata is nil, \<open>convertContainerInfo\<close>
  dereferences the nil metadata: \<open>GetContainerById\<close> panics and returns neither a result
  nor an error.
\<close>

theorem GetContainerById_nil_metadata_panics:
  assumes "rt_ContainerStatus (runtimeService c) sent (ContainerStatusRequest containerId True)
             = Inr (Some response)"
    and "Status response = Some status"
    and "Status_Metadata status = None"
  shows "convertContainerInfo status = Panic NilPointerDereference \<and>
         fst (GetContainerById c containerId sent) = Panic NilPointerDereference"
  using assms by (simp add: GetContainerById_def convertContainerInfo_def Let_def)

theorem GetContainerById_nil_metadata_panics_witness:
  "fst (GetContainerById
          (status_client (Inr (Some \<lparr>Status = Some (example_status None), Info = None\<rparr>)))
          ''c1'' [])
     = Panic NilPointerDereference"
  using
    GetContainerById_nil_metadata_panics [where containerId = "''c1''" and sent = "[]" and
      response = "\<lparr>Status = Some (example_status None), Info = None\<rparr>" and
      status = "example_status None" and
      c = "status_client (Inr (Some \<lparr>Status = Some (example_status None), Info = None\<rparr>))"]
  by (simp add: status_client_def example_client_def failing_runtime_def example_status_def)

section \<open>Process identity\<close>

text \<open>
  Whenever the status RPC succeeds, the info payload is present and decodes, and the decoded
  map holds no float64 under \<open>pid\<close>, the unchecked type assertion panics.
\<close>

lemma GetPidById_pid_not_float64:
  assumes "rt_ContainerStatus (runtimeService c) sent (ContainerStatusRequest containerId True)
             = Inr (Some response)"
    and "Info response = Some info"
    and "json_Unmarshal lib (case map_of info ''info'' of None \<Rightarrow> [] | Some s \<Rightarrow> s) = Inr dataMap"
    and "\<And>f. iface_get dataMap ''pid'' \<noteq> JFloat64 f"
  shows "fst (GetPidById lib c containerId sent) = Panic InterfaceConversion"
  using assms
  by (cases "iface_get dataMap ''pid''") (auto simp: GetPidById_def Let_def)

text \<open>A numeric \<open>pid\<close> is returned, converted to a 32-bit integer.\<close>

lemma GetPidById_numeric_pid:
  "fst (GetPidById example_lib
          (status_client (Inr (Some \<lparr>Status = None, Info = Some [(''info'', json_pid_number)]\<rparr>)))
          ''c1'' [])
     = Return (4242, None, OK)"
  by (simp add: GetPidById_def example_lib_def status_client_def example_client_def
        failing_runtime_def json_pid_string_def json_pid_number_def iface_get_def
        int32_of_float64_def truncate_float64_def Let_def)

text \<open>
  Claim C1, at two concrete status responses whose info payload decodes: the JSON object
  \<open>{}\<close>, which has no \<open>pid\<close> key, and the object \<open>{"pid":"4242"}\<close>, whose \<open>pid\<close> is a
  string. \<open>GetPidById\<close> panics on both and returns no lookup failure.
\<close>

theorem GetPidById_panics_without_numeric_pid:
  "fst (GetPidById example_lib
          (status_client (Inr (Some \<lparr>Status = None, Info = Some [(''info'', ''{}'')]\<rparr>)))
          ''c1'' [])
     = Panic InterfaceConversion \<and>
   fst (GetPidById example_lib
          (status_client (Inr (Some \<lparr>Status = None, Info = Some [(''info'', json_pid_string)]\<rparr>)))
          ''c1'' [])
     = Panic InterfaceConversion"
  by (simp add: GetPidById_def example_lib_def status_client_def example_client_def
        failing_runtime_def json_pid_string_def iface_get_def Let_def)

section \<open>Lookup by label selector\<close>

text \<open>
  The loop of \<open>matchLabels\<close> succeeds exactly when every entry of the selector is an entry
  of the labels, so the order in which the loop visits the selector does not matter.
\<close>

lemma matchLabels_loop_all:
  "matchLabels_loop labels entries = list_all (\<lambda>(k, v). map_of labels k = Some v) entries"
  by (induction labels entries rule: matchLabels_loop.induct) (auto split: option.splits)

lemma matchLabels_loop_order:
  "set entries = set entries' \<Longrightarrow>
     matchLabels_loop labels entries = matchLabels_loop labels entries'"
  by (simp add: matchLabels_loop_all list_all_iff)

lemma matchLabels_subset:
  "matchLabels container S
     = (Container_Labels container \<noteq> None \<and> selector_subset S (Container_Labels container))"
  by (cases "Container_Labels container")
     (simp_all add: matchLabels_def selector_subset_def matchLabels_loop_all map_get_def)

lemma find_filter:
  "find P xs = (case filter P xs of [] \<Rightarrow> None | y # ys \<Rightarrow> Some y)"
  by (induction xs) auto

text \<open>
  Claim C4 as stated fails for a container whose label mapping is nil. Every key of the empty
  selector exists in it, there being none, yet \<open>matchLabels\<close> rejects the container, and
  the lookup over a list holding only this container fails.
\<close>

theorem GetContainerByLabelSelector_nil_labels_counterexample:
  "selector_subset (Some []) (Container_Labels (example_container ''c1'' None)) \<and>
   \<not> matchLabels (example_container ''c1'' None) (Some []) \<and>
   fst (GetContainerByLabelSelector (listing_client [example_container ''c1'' None]) (Some []) [])
     = Return (zero_ContainerInfo, Some (NewError ''no containers found: <nil>''),
         ContainerExecFailed)"
  by (simp add: selector_subset_def map_entries_def matchLabels_def example_container_def
        GetContainerByLabelSelector_def listing_client_def example_client_def
        failing_runtime_def fmt_v_def Let_def)

text \<open>
  Claim C4, amended. A container matches a selector \<open>S\<close> iff its label mapping is not nil
  and every key of \<open>S\<close> exists in it with an equal value. When the list RPC succeeds,
  \<open>GetContainerByLabelSelector\<close> returns the projection of the first matching container in
  listing order, provided that container has metadata, and it returns a lookup failure iff no
  container of the list matches.
\<close>

theorem GetContainerByLabelSelector_first_match:
  "(matchLabels container S
      = (Container_Labels container \<noteq> None \<and> selector_subset S (Container_Labels container))) \<and>
   (\<forall>listResponse.
      rt_ListContainers (runtimeService c) sent ListContainersRequest = Inr (Some listResponse)
      \<longrightarrow>
      (let res = fst (GetContainerByLabelSelector c S sent);
           firstMatch = find (\<lambda>x. Container_Labels x \<noteq> None \<and>
                                    selector_subset S (Container_Labels x))
                          (Containers listResponse)
       in (\<forall>first metadata.
             firstMatch = Some first \<and> Container_Metadata first = Some metadata \<longrightarrow>
             res = Return (\<lparr>ContainerId = Container_Id first, ContainerName = Name metadata,
                             Labels = Container_Labels first, Spec = None\<rparr>, None, OK)) \<and>
          (firstMatch = None \<longrightarrow>
             res = Return (zero_ContainerInfo, Some (NewError ''no containers found: <nil>''),
                     ContainerExecFailed)) \<and>
          ((\<exists>info e. res = Return (info, Some e, ContainerExecFailed)) = (firstMatch = None))))"
proof (intro conjI allI impI)
  show "matchLabels container S
      = (Container_Labels container \<noteq> None \<and> selector_subset S (Container_Labels container))"
    by (rule matchLabels_subset)
next
  fix listResponse
  assume listed: "rt_ListContainers (runtimeService c) sent ListContainersRequest
                    = Inr (Some listResponse)"
  let ?P = "\<lambda>x. Container_Labels x \<noteq> None \<and> selector_subset S (Container_Labels x)"
  have P: "(\<lambda>container. matchLabels container S) = ?P"
    by (rule ext) (rule matchLabels_subset)
  show "let res = fst (GetContainerByLabelSelector c S sent);
            firstMatch = find ?P (Containers listResponse)
        in (\<forall>first metadata.
              firstMatch = Some first \<and> Container_Metadata first = Some metadata \<longrightarrow>
              res = Return (\<lparr>ContainerId = Container_Id first, ContainerName = Name metadata,
                              Labels = Container_Labels first, Spec = None\<rparr>, None, OK)) \<and>
           (firstMatch = None \<longrightarrow>
              res = Return (zero_ContainerInfo, Some (NewError ''no containers found: <nil>''),
                      ContainerExecFailed)) \<and>
           ((\<exists>info e. res = Return (info, Some e, ContainerExecFailed)) = (firstMatch = None))"
  proof (cases "filter ?P (Containers listResponse)")
    case Nil
    then show ?thesis
      using listed
      by (simp add: GetContainerByLabelSelector_def P find_filter fmt_v_def Let_def)
  next
    case (Cons first others)
    then show ?thesis
      using listed
      by (cases "Container_Metadata first")
         (simp_all add: GetContainerByLabelSelector_def P find_filter convertContainerInfo2_def
            Let_def)
  qed
qed

theorem GetContainerByLabelSelector_first_match_witness:
  "matchLabels (example_container ''c2'' (Some [(''tier'', ''fe''), (''app'', ''web'')]))
     (Some [(''app'', ''web'')]) \<and>
   fst (GetContainerByLabelSelector
          (listing_client
             [example_container ''c1'' None,
              example_container ''c2'' (Some [(''tier'', ''fe''), (''app'', ''web'')]),
              example_container ''c3'' (Some [(''app'', ''web'')])])
          (Some [(''app'', ''web'')]) [])
     = Return (\<lparr>ContainerId = ''c2'', ContainerName = ''web'',
                 Labels = Some [(''tier'', ''fe''), (''app'', ''web'')], Spec = None\<rparr>, None, OK) \<and>
   fst (GetContainerByLabelSelector
          (listing_client
             [example_container ''c1'' None,
              example_container ''c3'' (Some [(''app'', ''db'')])])
          (Some [(''app'', ''web'')]) [])
     = Return (zero_ContainerInfo, Some (NewError ''no containers found: <nil>''),
         ContainerExecFailed)"
  using
    GetContainerByLabelSelector_first_match [where sent = "[]" and S = "Some [(''app'', ''web'')]"
      and container = "example_container ''c2'' (Some [(''tier'', ''fe''), (''app'', ''web'')])"
      and c = "listing_client
                 [example_container ''c1'' None,
                  example_container ''c2'' (Some [(''tier'', ''fe''), (''app'', ''web'')]),
                  example_container ''c3'' (Some [(''app'', ''web'')])]"]
    GetContainerByLabelSelector_first_match [where sent = "[]" and S = "Some [(''app'', ''web'')]"
      and container = "example_container ''c1'' None"
      and c = "listing_client
                 [example_container ''c1'' None,
                  example_container ''c3'' (Some [(''app'', ''db'')])]"]
  by (simp add: Let_def listing_client_def example_client_def failing_runtime_def
        example_container_def selector_subset_def map_entries_def map_get_def)

section \<open>Removal\<close>

text \<open>
  Claim C6. \<open>RemoveContainer\<close> does the same for both values of \<open>force\<close>: it sends a stop
  request with the timeout 15, and a remove request if the stop succeeded. If the stop fails
  it returns an error carrying the stop error's message and sends nothing more; if the
  remove fails it returns an error carrying the remove error's message; otherwise it returns
  nil.
\<close>

theorem RemoveContainer_force_unused:
  "let stopRequest = StopContainerRequest containerId 15;
       removeRequest = RemoveContainerRequest containerId;
       stopped = rt_StopContainer (runtimeService c) sent stopRequest;
       removed = rt_RemoveContainer (runtimeService c) (sent @ [stopRequest]) removeRequest
   in RemoveContainer c containerId True sent = RemoveContainer c containerId False sent \<and>
      (\<forall>e. stopped = Some e \<longrightarrow>
         RemoveContainer c containerId force sent =
           (Some (NewError (''failed to stop container '' @ containerId @ '': '' @ Error e)),
            sent @ [stopRequest])) \<and>
      (\<forall>e. stopped = None \<and> removed = Some e \<longrightarrow>
         RemoveContainer c containerId force sent =
           (Some (NewError (''failed to remove container '' @ containerId @ '': '' @ Error e)),
            sent @ [stopRequest, removeRequest])) \<and>
      (stopped = None \<and> removed = None \<longrightarrow>
         RemoveContainer c containerId force sent = (None, sent @ [stopRequest, removeRequest]))"
  by (auto simp: RemoveContainer_def fmt_v_def Let_def)

theorem RemoveContainer_force_unused_witness:
  "RemoveContainer (removal_client (Some (NewError ''unavailable'')) None) ''c1'' True []
     = (Some (NewError ''failed to stop container c1: unavailable''),
        [StopContainerRequest ''c1'' 15]) \<and>
   RemoveContainer (removal_client None (Some (NewError ''busy''))) ''c1'' False []
     = (Some (NewError ''failed to remove container c1: busy''),
        [StopContainerRequest ''c1'' 15, RemoveContainerRequest ''c1'']) \<and>
   RemoveContainer (removal_client None None) ''c1'' True []
     = (None, [StopContainerRequest ''c1'' 15, RemoveContainerRequest ''c1''])"
  using
    RemoveContainer_force_unused [where containerId = "''c1''" and sent = "[]" and force = True
      and c = "removal_client (Some (NewError ''unavailable'')) None"]
    RemoveContainer_force_unused [where containerId = "''c1''" and sent = "[]" and force = False
      and c = "removal_client None (Some (NewError ''busy''))"]
    RemoveContainer_force_unused [where containerId = "''c1''" and sent = "[]" and force = True
      and c = "removal_client None None"]
  by (auto simp: Let_def removal_client_def example_client_def failing_runtime_def)

section \<open>The ephemeral container\<close>

text \<open>\<open>CreateContainer\<close> sends no stop and no remove request.\<close>

lemma CreateContainer_requests:
  assumes "CreateContainer c containerName config hostConfig networkConfig sent = (res, sent1)"
  shows "\<exists>created. sent1 = sent @ created \<and> filter is_stop_or_remove created = []"
  using assms
  by (auto simp: CreateContainer_def Let_def split: option.splits sum.splits)

text \<open>The example job's container is created with the identifier \<open>abc\<close>.\<close>

lemma example_job_created:
  "CreateContainer (job_client started execd) ''job'' (Some example_config)
     (Some example_hostConfig) () []
   = (Return (''abc'', None),
      snd (CreateContainer (job_client started execd) ''job'' (Some example_config)
             (Some example_hostConfig) () []))"
  by (simp add: CreateContainer_def job_client_def example_client_def failing_runtime_def
        example_images_def Let_def)

text \<open>
  Claim C9. When the container has been created and the start RPC fails,
  \<open>ExecuteAndRemove\<close> returns the empty string as the container identifier, whatever
  identifier the creation returned, with the code \<open>CreateContainerFailed\<close>.
\<close>

theorem ExecuteAndRemove_start_failure_empty_id:
  assumes "CreateContainer c containerName config hostConfig networkConfig sent
             = (Return (containerId, None), sent1)"
    and "rt_StartContainer (runtimeService c) sent1 (StartContainerRequest containerId) = Some e"
  shows "ExecuteAndRemove lib c config hostConfig networkConfig containerName removed timeout
           command containerInfo sent
         = (Return ([], [], Some (NewError (''StartContainer error:'' @ Error e)),
              CreateContainerFailed),
            sent1 @ [StartContainerRequest containerId])"
  using assms by (simp add: ExecuteAndRemove_def fmt_v_def Let_def)

theorem ExecuteAndRemove_start_failure_empty_id_witness:
  "fst (ExecuteAndRemove example_lib
          (job_client (Some (NewError ''unavailable'')) (Inl (NewError ''unavailable'')))
          (Some example_config) (Some example_hostConfig) () ''job'' True 5000000000 ''ls''
          zero_ContainerInfo [])
     = Return ([], [], Some (NewError ''StartContainer error:unavailable''), CreateContainerFailed)"
proof -
  let ?c = "job_client (Some (NewError ''unavailable'')) (Inl (NewError ''unavailable''))"
  let ?made = "CreateContainer ?c ''job'' (Some example_config) (Some example_hostConfig) () []"
  have started: "rt_StartContainer (runtimeService ?c) (snd ?made) (StartContainerRequest ''abc'')
                   = Some (NewError ''unavailable'')"
    by (simp add: job_client_def example_client_def failing_runtime_def)
  show ?thesis
    using ExecuteAndRemove_start_failure_empty_id [OF example_job_created started] by simp
qed

text \<open>
  Claim C5. When the container has been created and started and the exec-sync RPC succeeds
  with a nonzero exit code, \<open>ExecuteAndRemove\<close> returns the created container's
  identifier, an error and the code \<open>ContainerExecFailed\<close>; the exec-sync request is the
  last request it sends, and none of the requests it sends stops or removes a container.
\<close>

theorem ExecuteAndRemove_nonzero_exit:
  assumes created: "CreateContainer c containerName (Some cfg) hostConfig networkConfig sent
             = (Return (containerId, None), sent1)"
    and started: "rt_StartContainer (runtimeService c) sent1 (StartContainerRequest containerId) = None"
    and request: "execRequest = ExecSyncRequest containerId
             (if Config_Cmd cfg = None then Some [command] else Config_Cmd cfg)
             (int64_of_float64 lib (Duration_Seconds lib timeout))"
    and execd: "rt_ExecSync (runtimeService c) (sent1 @ [StartContainerRequest containerId]) execRequest
             = Inr (Some execResponse)"
    and exit: "ExitCode execResponse \<noteq> 0"
  shows "\<exists>issued.
           ExecuteAndRemove lib c (Some cfg) hostConfig networkConfig containerName removed timeout
             command containerInfo sent
           = (Return (containerId, [], Some (NewError ''command in container failed : <nil>''),
                ContainerExecFailed),
              sent @ issued) \<and>
           sent @ issued = sent1 @ [StartContainerRequest containerId, execRequest] \<and>
           filter is_stop_or_remove issued = []"
proof -
  obtain made where made: "sent1 = sent @ made" "filter is_stop_or_remove made = []"
    using CreateContainer_requests [OF created] by blast
  let ?issued = "made @ [StartContainerRequest containerId, execRequest]"
  have "ExecuteAndRemove lib c (Some cfg) hostConfig networkConfig containerName removed timeout
          command containerInfo sent
        = (Return (containerId, [], Some (NewError ''command in container failed : <nil>''),
             ContainerExecFailed),
           sent1 @ [StartContainerRequest containerId, execRequest])"
    using created started execd exit unfolding request
    by (cases "Config_Cmd cfg") (simp_all add: ExecuteAndRemove_def fmt_v_def Let_def)
  moreover have "filter is_stop_or_remove ?issued = []"
    using made(2) by (simp add: request)
  ultimately show ?thesis
    using made(1) by (intro exI [of _ ?issued]) simp
qed

theorem ExecuteAndRemove_nonzero_exit_witness:
  "\<exists>issued.
     ExecuteAndRemove example_lib
       (job_client None (Inr (Some \<lparr>Stdout = [], Stderr = ''no such file'', ExitCode = 2\<rparr>)))
       (Some example_config) (Some example_hostConfig) () ''job'' True 5000000000 ''ls''
       zero_ContainerInfo []
     = (Return (''abc'', [], Some (NewError ''command in container failed : <nil>''),
          ContainerExecFailed), issued) \<and>
     filter is_stop_or_remove issued = []"
proof -
  let ?c = "job_client None (Inr (Some \<lparr>Stdout = [], Stderr = ''no such file'', ExitCode = 2\<rparr>))"
  let ?made = "CreateContainer ?c ''job'' (Some example_config) (Some example_hostConfig) () []"
  have started: "rt_StartContainer (runtimeService ?c) (snd ?made) (StartContainerRequest ''abc'')
                   = None"
    by (simp add: job_client_def example_client_def failing_runtime_def)
  have execd: "rt_ExecSync (runtimeService ?c) (snd ?made @ [StartContainerRequest ''abc''])
                 (ExecSyncRequest ''abc''
                    (if Config_Cmd example_config = None then Some [''ls'']
                     else Config_Cmd example_config)
                    (int64_of_float64 example_lib (Duration_Seconds example_lib 5000000000)))
               = Inr (Some \<lparr>Stdout = [], Stderr = ''no such file'', ExitCode = 2\<rparr>)"
    by (simp add: job_client_def example_client_def failing_runtime_def)
  have exit: "ExitCode \<lparr>Stdout = [], Stderr = ''no such file'', ExitCode = (2 :: int32)\<rparr> \<noteq> 0"
    by simp
  show ?thesis
    using ExecuteAndRemove_nonzero_exit [OF example_job_created started refl execd exit,
            where removed = True and containerInfo = zero_ContainerInfo]
    by auto
qed

end
